theory Spec2Isabelle
  imports Main "HOL-Library.AList"
begin

section \<open>Data model of \<open>authenticator.ts\<close>\<close>

text \<open>
  JavaScript values as the controller handles them. Exceptions are values too (they end
  up in the \<open>error\<close> field of a rejection payload), and so is the one closure the code
  passes around (the argument of \<open>Promise.reject\<close> in Redirect mode, lines 81-84):
  \<open>RedirectThunk url provider\<close> stands for
  \<^verbatim>\<open>() => { location.replace(url); return {error: `Redirecting to endpoint: ${provider}`}; }\<close>.
  Numbers are only stored and passed on by this code, never computed with; timestamps of
  \<open>Date\<close> objects are integers of milliseconds, \<open>None\<close> being the Invalid Date (NaN).
\<close>

datatype exn = TypeError | SyntaxError

datatype thunk = RedirectThunk string string

datatype jsval =
    JUndefined
  | JNull
  | JBool bool
  | JNum int
  | JStr string
  | JDate "int option"
  | JErr exn
  | JFun thunk
  | JArr "jsval list"
  | JObj "(string \<times> jsval) list"

datatype AuthenticationMode = Dialog | Redirect

text \<open>
  \<open>IEndpoint\<close> is declared in \<open>endpoint.manager\<close>; the fields are those the spec's data
  model lists. \<open>tokenUrl\<close> is optional (\<open>None\<close> is \<open>null\<close>/\<open>undefined\<close>).
\<close>

record endpoint =
  provider :: string
  clientId :: string
  baseUrl :: string
  authorizeUrl :: string
  redirectUrl :: string
  tokenUrl :: "string option"
  scope :: string

text \<open>
  The class \<open>Authenticator\<close>: its three public fields.

  Modelled from the spec: \<open>EndpointManager\<close> and \<open>TokenManager\<close> (files
  \<open>endpoint.manager\<close>, \<open>token.manager\<close>): the Endpoint Registry is "a simple mapping from
  provider name to its configuration" and the Token Store "an injected store with
  get/set/remove semantics", a "persistent mapping of provider name to token record".
  \<open>get\<close> of a missing key is \<open>null\<close>/\<open>undefined\<close>, here \<open>None\<close>; \<open>get\<close> of a
  present key is the stored record itself, so an assignment to one of its fields
  (line 63) is a write to the store.
\<close>

record authenticator =
  endpoints :: "string \<rightharpoonup> endpoint"
  tokens :: "string \<rightharpoonup> jsval"
  mode :: AuthenticationMode

text \<open>
  What the code calls but does not define: the platform (\<open>Date\<close>, \<open>JSON\<close>), the memoised
  static \<open>isAddin\<close>, and the static helpers of the two managers, taken as parameters.
  \<open>newDate v\<close> is the time value of \<open>new Date(v)\<close>; \<open>JSON_parse\<close> throws a
  \<open>SyntaxError\<close> on malformed input; \<open>window_open url name features\<close> tells whether
  \<open>window.open\<close> returns a window (rather than \<open>null\<close>, the popup being blocked).
\<close>

record platform =
  isAddin :: bool
  getLoginUrl :: "endpoint \<Rightarrow> string"
  getToken :: "string \<Rightarrow> string \<Rightarrow> jsval"
  newDate :: "jsval \<Rightarrow> int option"
  JSON_parse :: "string \<Rightarrow> exn + jsval"
  JSON_stringify :: "jsval \<Rightarrow> jsval"
  window_open :: "string \<Rightarrow> string \<Rightarrow> string \<Rightarrow> bool"

text \<open>
  Everything the controller does to the outside world, in the order it does it.
  \<open>WindowOpen url name features opened\<close> records whether \<open>window.open\<close> returned a
  window; \<open>Settle\<close> marks a call of \<open>resolve\<close>/\<open>reject\<close> with a plain value.
  The two size options of \<open>displayDialogAsync\<close> (floating-point quotients of the screen
  size) are not recorded.
\<close>

datatype effect =
    ConsoleWarn string
  | WindowOpen string string string bool
  | SetInterval nat
  | ClearInterval
  | PopupClose
  | DisplayDialog string
  | AddEventHandler
  | DialogClose
  | XhrOpen string string
  | XhrSetRequestHeader string jsval
  | XhrSend jsval
  | LocationReplace string
  | MessageParent jsval
  | Settle

text \<open>
  A promise is settled, or pending on the one callback that can still settle it:
  the polling timer of the popup (with whether the window handle is non-null), the
  callback of \<open>displayDialogAsync\<close>, the dialog's message handler, or \<open>xhr.onload\<close>.
  \<open>Never\<close>: pending with no callback left.
\<close>

datatype wait =
    PopupPolling endpoint bool
  | DialogOpening endpoint
  | DialogOpen endpoint
  | XhrInFlight endpoint
  | Never

datatype promise = Resolved jsval | Rejected jsval | Pending wait

type_synonym result = "promise \<times> authenticator \<times> effect list"

section \<open>JavaScript operators the code uses\<close>

text \<open>\<open>v == null\<close>.\<close>

definition is_nullish :: "jsval \<Rightarrow> bool" where
  "is_nullish v = (v = JNull \<or> v = JUndefined)"

text \<open>
  \<open>v.name\<close> for a non-nullish \<open>v\<close> and a name that no prototype defines
  (\<open>expires_at\<close>): the own field, else \<open>undefined\<close>.
\<close>

definition get_prop :: "string \<Rightarrow> jsval \<Rightarrow> jsval" where
  "get_prop name v =
     (case v of
        JObj fs \<Rightarrow> (case map_of fs name of Some x \<Rightarrow> x | None \<Rightarrow> JUndefined)
      | _ \<Rightarrow> JUndefined)"

text \<open>\<open>v.name = x\<close> on an object; on a primitive the assignment is dropped.\<close>

definition set_prop :: "string \<Rightarrow> jsval \<Rightarrow> jsval \<Rightarrow> jsval" where
  "set_prop name x v =
     (case v of JObj fs \<Rightarrow> JObj (AList.update name x fs) | _ \<Rightarrow> v)"

text \<open>
  \<open>name in v\<close> for the names \<open>code\<close> and \<open>access_token\<close>, which no built-in prototype
  defines: a \<open>TypeError\<close> when \<open>v\<close> is not an object, the presence of the own field on a
  plain object, false on arrays, dates, errors and functions.
\<close>

definition has_field :: "string \<Rightarrow> jsval \<Rightarrow> exn + bool" where
  "has_field name v =
     (case v of
        JObj fs \<Rightarrow> Inr (map_of fs name \<noteq> None)
      | JArr _ \<Rightarrow> Inr False
      | JDate _ \<Rightarrow> Inr False
      | JErr _ \<Rightarrow> Inr False
      | JFun _ \<Rightarrow> Inr False
      | _ \<Rightarrow> Inl TypeError)"

text \<open>\<open>{ error: x }\<close>, the \<open>IError\<close> payload.\<close>

definition IError :: "jsval \<Rightarrow> jsval" where
  "IError x = JObj [(''error'', x)]"

text \<open>\<open>s.indexOf(t) !== -1\<close>.\<close>

fun str_includes :: "string \<Rightarrow> string \<Rightarrow> bool" where
  "str_includes [] t = (t = [])"
| "str_includes (c # cs) t = (take (length t) (c # cs) = t \<or> str_includes cs t)"

text \<open>\<open>toUpperCase\<close> and the case folding of the regular expression flag \<open>i\<close>, on ASCII.\<close>

definition canonicalize :: "char \<Rightarrow> char" where
  "canonicalize c =
     (let n = (of_char c :: nat) in if 97 \<le> n \<and> n \<le> 122 then char_of (n - 32) else c)"

definition toUpperCase :: "string \<Rightarrow> string" where
  "toUpperCase s = map canonicalize s"

section \<open>\<open>isTokenUrl\<close> and \<open>isAuthDialog\<close>\<close>

text \<open>
  \<open>/(access_token|code|error)/gi.test(url)\<close> on a fresh regular expression
  (\<open>lastIndex = 0\<close>): at each position from the left, the alternatives in order.
\<close>

definition matches_at :: "string \<Rightarrow> string \<Rightarrow> bool" where
  "matches_at alt s =
     (length alt \<le> length s \<and> map canonicalize (take (length alt) s) = map canonicalize alt)"

fun regex_test :: "string list \<Rightarrow> string \<Rightarrow> bool" where
  "regex_test alts [] = list_ex (\<lambda>alt. matches_at alt []) alts"
| "regex_test alts (c # cs) =
     (list_ex (\<lambda>alt. matches_at alt (c # cs)) alts \<or> regex_test alts cs)"

definition isTokenUrl :: "string \<Rightarrow> bool" where
  "isTokenUrl url = regex_test [''access_token'', ''code'', ''error''] url"

text \<open>
  \<open>isAuthDialog\<close> reads \<open>location.href\<close> and \<open>location.origin\<close>; it returns its boolean
  and what it sent to the parent.
\<close>

definition isAuthDialog :: "platform \<Rightarrow> string \<Rightarrow> string \<Rightarrow> bool \<times> effect list" where
  "isAuthDialog P href origin =
     (if \<not> isAddin P then (False, [])
      else if \<not> isTokenUrl href then (False, [])
      else
        let token = getToken P href origin
        in (True, [MessageParent (JSON_stringify P token)]))"

text \<open>
  The wording of the specification: \<open>url\<close> contains \<open>w\<close> somewhere, letter case ignored.
\<close>

definition contains_ci :: "string \<Rightarrow> string \<Rightarrow> bool" where
  "contains_ci w url =
     (\<exists>pre mid post. url = pre @ mid @ post \<and> map canonicalize mid = map canonicalize w)"

section \<open>The controller\<close>

subsection \<open>\<open>exchangeCodeForToken\<close> (lines 103-152)\<close>

definition no_tokenUrl_warning :: string where
  "no_tokenUrl_warning =
     ''We couldn'' @ [CHR 0x27] @ ''t exchange the received code for an access_token.''
     @ [CHR 0x0A] @ replicate 20 (CHR '' '') @ ''The value returned is not an access_token.''
     @ [CHR 0x0A] @ replicate 20 (CHR '' '')
     @ ''Please set the tokenUrl property or refer to our docs.''"

text \<open>
  The promise executor. Reading \<open>tokenUrl\<close> of a missing endpoint throws inside the
  executor, which rejects the promise with the exception itself. With a token URL the
  request is sent and the promise stays pending on \<open>xhr.onload\<close>, the only handler the
  code installs. \<open>headers\<close> is the list of the own enumerable fields of the argument
  (empty for \<open>undefined\<close>).
\<close>

definition exchangeCodeForToken ::
  "platform \<Rightarrow> authenticator \<Rightarrow> string \<Rightarrow> jsval \<Rightarrow> (string \<times> jsval) list \<Rightarrow> result" where
  "exchangeCodeForToken P this prov data headers =
     (case endpoints this prov of
        None \<Rightarrow> (Rejected (JErr TypeError), this, [Settle])
      | Some endpoint \<Rightarrow>
          (case tokenUrl endpoint of
             None \<Rightarrow> (Resolved data, this, [ConsoleWarn no_tokenUrl_warning, Settle])
           | Some url \<Rightarrow>
               (Pending (XhrInFlight endpoint), this,
                [XhrOpen ''POST'' url,
                 XhrSetRequestHeader ''Accept'' (JStr ''application/json''),
                 XhrSetRequestHeader ''Content-Type'' (JStr ''application/json'')]
                @ map (\<lambda>(header, v). XhrSetRequestHeader header v)
                    (filter (\<lambda>(header, v). \<not> (header = ''Accept'' \<or> header = ''Content-Type''))
                       headers)
                @ [XhrSend (JSON_stringify P data)])))"

text \<open>\<open>xhr.onload\<close> (lines 129-148), with \<open>xhr.status\<close> and the response text.\<close>

definition xhr_onload ::
  "platform \<Rightarrow> authenticator \<Rightarrow> endpoint \<Rightarrow> nat \<Rightarrow> string \<Rightarrow> result" where
  "xhr_onload P this endpoint status responseText =
     (if status = 200 then
        (case JSON_parse P responseText of
           Inl e \<Rightarrow> (Rejected (IError (JErr e)), this, [Settle])
         | Inr json \<Rightarrow>
             (case has_field ''access_token'' json of
                Inl e \<Rightarrow> (Rejected (IError (JErr e)), this, [Settle])
              | Inr True \<Rightarrow>
                  (Resolved json,
                   this\<lparr>tokens := (tokens this)(provider endpoint \<mapsto> json)\<rparr>,
                   [Settle])
              | Inr False \<Rightarrow> (Rejected json, this, [Settle])))
      else (Rejected (IError (JStr (''Request failed. '' @ responseText))), this, [Settle]))"

subsection \<open>The popup surface (lines 201-243)\<close>

definition windowFeatures :: string where
  "windowFeatures =
     ''width=400,height=600''
     @ '',menubar=no,toolbar=no,location=no,resizable=no,scrollbars=yes,status=no''"

definition openInWindowPopup :: "platform \<Rightarrow> authenticator \<Rightarrow> endpoint \<Rightarrow> result" where
  "openInWindowPopup P this endpoint =
     (let url = getLoginUrl P endpoint;
          name = toUpperCase (provider endpoint);
          popupWindow = window_open P url name windowFeatures
      in (Pending (PopupPolling endpoint popupWindow), this,
          [WindowOpen url name windowFeatures popupWindow, SetInterval 400]))"

text \<open>
  What reading \<open>popupWindow.document.URL\<close> gives at a tick: the URL, or an exception
  (the popup is on another origin, or is gone).
\<close>

datatype probe = DocumentURL string | Inaccessible exn

text \<open>
  With a \<open>null\<close> handle the read throws a \<open>TypeError\<close> whatever the popup does.
\<close>

definition read_URL :: "bool \<Rightarrow> probe \<Rightarrow> probe" where
  "read_URL popupWindow pr = (if popupWindow then pr else Inaccessible TypeError)"

text \<open>
  One tick of the timer (lines 211-235). An exception after \<open>clearInterval\<close> is caught
  by the same handler and, the handle being a window, dropped: no tick follows.
  \<open>setInterval\<close> itself does not throw, so the outer handler (lines 238-241) has no
  case here.
\<close>

definition poll_tick ::
  "platform \<Rightarrow> authenticator \<Rightarrow> endpoint \<Rightarrow> bool \<Rightarrow> probe \<Rightarrow> result" where
  "poll_tick P this endpoint popupWindow pr =
     (case read_URL popupWindow pr of
        DocumentURL u \<Rightarrow>
          if str_includes u (redirectUrl endpoint) then
            (let result = getToken P u (redirectUrl endpoint) in
             if is_nullish result then
               (Rejected (IError (JStr ''No access_token or code could be parsed.'')), this,
                [ClearInterval, PopupClose, Settle])
             else
               (case has_field ''code'' result of
                  Inl e \<Rightarrow> (Pending Never, this, [ClearInterval, PopupClose])
                | Inr True \<Rightarrow>
                    (case exchangeCodeForToken P this (provider endpoint) result [] of
                       (p, this', tr) \<Rightarrow> (p, this', [ClearInterval, PopupClose] @ tr))
                | Inr False \<Rightarrow>
                    (case has_field ''access_token'' result of
                       Inl e \<Rightarrow> (Pending Never, this, [ClearInterval, PopupClose])
                     | Inr True \<Rightarrow>
                         (Resolved result,
                          this\<lparr>tokens := (tokens this)(provider endpoint \<mapsto> result)\<rparr>,
                          [ClearInterval, PopupClose, Settle])
                     | Inr False \<Rightarrow>
                         (Rejected result, this, [ClearInterval, PopupClose, Settle]))))
          else (Pending (PopupPolling endpoint popupWindow), this, [])
      | Inaccessible e \<Rightarrow>
          if \<not> popupWindow then
            (Rejected (IError (JErr e)), this, [ClearInterval, Settle])
          else (Pending (PopupPolling endpoint popupWindow), this, []))"

subsection \<open>The dialog surface (lines 245-282)\<close>

definition openInDialog :: "platform \<Rightarrow> authenticator \<Rightarrow> endpoint \<Rightarrow> result" where
  "openInDialog P this endpoint =
     (let url = getLoginUrl P endpoint
      in (Pending (DialogOpening endpoint), this, [DisplayDialog url]))"

text \<open>
  The callback of \<open>displayDialogAsync\<close> (lines 254-256): \<open>result.value\<close> is the dialog,
  or \<open>undefined\<close> when it could not be shown; then \<open>dialog.addEventHandler\<close> throws
  out of the callback and nothing is left to settle the promise.
\<close>

definition dialog_callback :: "authenticator \<Rightarrow> endpoint \<Rightarrow> bool \<Rightarrow> result" where
  "dialog_callback this endpoint dialog =
     (if dialog then (Pending (DialogOpen endpoint), this, [AddEventHandler])
      else (Pending Never, this, []))"

text \<open>The message handler (lines 256-279); \<open>None\<close> is a \<open>null\<close>/\<open>undefined\<close> message.\<close>

definition dialog_message ::
  "platform \<Rightarrow> authenticator \<Rightarrow> endpoint \<Rightarrow> string option \<Rightarrow> result" where
  "dialog_message P this endpoint message =
     (case (case message of None \<Rightarrow> None | Some m \<Rightarrow> if m = [] then None else Some m) of
        None \<Rightarrow>
          (Rejected (IError (JStr ''No access_token or code could be parsed.'')), this,
           [DialogClose, Settle])
      | Some m \<Rightarrow>
          (case JSON_parse P m of
             Inl e \<Rightarrow> (Rejected (IError (JErr e)), this, [DialogClose, Settle])
           | Inr json \<Rightarrow>
               (case has_field ''code'' json of
                  Inl e \<Rightarrow> (Rejected (IError (JErr e)), this, [DialogClose, Settle])
                | Inr True \<Rightarrow>
                    (case exchangeCodeForToken P this (provider endpoint) json [] of
                       (p, this', tr) \<Rightarrow> (p, this', [DialogClose] @ tr))
                | Inr False \<Rightarrow>
                    (case has_field ''access_token'' json of
                       Inl e \<Rightarrow> (Rejected (IError (JErr e)), this, [DialogClose, Settle])
                     | Inr True \<Rightarrow>
                         (Resolved json,
                          this\<lparr>tokens := (tokens this)(provider endpoint \<mapsto> json)\<rparr>,
                          [DialogClose, Settle])
                     | Inr False \<Rightarrow> (Rejected json, this, [DialogClose, Settle])))))"

subsection \<open>\<open>authenticate\<close> (lines 58-89)\<close>

text \<open>
  Lines 62-68, for a token that is not \<open>null\<close>: the token with \<open>expires_at\<close> made a
  \<open>Date\<close>, the authenticator whose store holds that token (the assignment of line 63
  goes into the stored record), the \<open>force\<close> flag, and the warning. A comparison with
  NaN is false.
\<close>

definition as_Date :: "platform \<Rightarrow> jsval \<Rightarrow> int option" where
  "as_Date P v = (case v of JDate t \<Rightarrow> t | _ \<Rightarrow> newDate P v)"

definition expiry_check ::
  "platform \<Rightarrow> int \<Rightarrow> authenticator \<Rightarrow> string \<Rightarrow> jsval \<Rightarrow> bool
     \<Rightarrow> jsval \<times> authenticator \<times> bool \<times> effect list" where
  "expiry_check P now this prov token force =
     (if \<not> is_nullish (get_prop ''expires_at'' token) then
        (let expires_at = as_Date P (get_prop ''expires_at'' token);
             token' = set_prop ''expires_at'' (JDate expires_at) token;
             this' = this\<lparr>tokens := (tokens this)(prov \<mapsto> token')\<rparr>
         in if (case expires_at of None \<Rightarrow> False | Some t \<Rightarrow> t - now < 0) then
              (token', this', True,
               [ConsoleWarn (''Token for provider: '' @ prov
                             @ '' has expired. Re-authenticating...'')])
            else (token', this', force, []))
      else (token, this, force, []))"

text \<open>\<open>now\<close> is \<open>new Date().getTime()\<close> at the call.\<close>

definition authenticate ::
  "platform \<Rightarrow> int \<Rightarrow> authenticator \<Rightarrow> string \<Rightarrow> bool \<Rightarrow> result" where
  "authenticate P now this prov force =
     (let token = (case tokens this prov of None \<Rightarrow> JUndefined | Some t \<Rightarrow> t);
          (token', this', force', warned) =
             (if \<not> is_nullish token then expiry_check P now this prov token force
              else (token, this, force, []))
      in if \<not> is_nullish token \<and> \<not> force' then (Resolved token', this', warned @ [Settle])
         else
           (case endpoints this' prov of
              None \<Rightarrow>
                (Rejected (IError (JStr (''No such registered endpoint: '' @ prov
                                          @ '' could be found.''))),
                 this', warned @ [Settle])
            | Some endpoint \<Rightarrow>
                if mode this' = Redirect then
                  (Rejected (JFun (RedirectThunk (getLoginUrl P endpoint) prov)), this',
                   warned @ [Settle])
                else
                  (case (if isAddin P then openInDialog P this' endpoint
                         else openInWindowPopup P this' endpoint) of
                     (p, this'', tr) \<Rightarrow> (p, this'', warned @ tr))))"

text \<open>
  What the closure of lines 81-84 would do if somebody called it: replace the location
  and return the error payload. Nothing in \<open>authenticate\<close> calls it.
\<close>

fun call_thunk :: "thunk \<Rightarrow> jsval \<times> effect list" where
  "call_thunk (RedirectThunk url prov) =
     (IError (JStr (''Redirecting to endpoint: '' @ prov)), [LocationReplace url])"

subsection \<open>Callbacks\<close>

text \<open>
  What the host can deliver to a pending call: a timer tick (with \<open>popupWindow.closed\<close>,
  which the code never reads, and the result of reading the URL), the dialog callback,
  a dialog message, the \<open>load\<close> event of the request with status and text, or a transport
  fault of the request (its \<open>error\<close> event). An event with no handler installed for it
  changes nothing; a settled promise has cleared its timer or closed its dialog.
\<close>

datatype event =
    Tick bool probe
  | DialogCallback bool
  | DialogMessage "string option"
  | XhrLoad nat string
  | XhrError

fun handle :: "platform \<Rightarrow> authenticator \<Rightarrow> wait \<Rightarrow> event \<Rightarrow> result" where
  "handle P this (PopupPolling endpoint popupWindow) (Tick closed pr) =
     poll_tick P this endpoint popupWindow pr"
| "handle P this (DialogOpening endpoint) (DialogCallback dialog) =
     dialog_callback this endpoint dialog"
| "handle P this (DialogOpen endpoint) (DialogMessage message) =
     dialog_message P this endpoint message"
| "handle P this (XhrInFlight endpoint) (XhrLoad status responseText) =
     xhr_onload P this endpoint status responseText"
| "handle P this w ev = (Pending w, this, [])"

fun deliver :: "platform \<Rightarrow> event \<Rightarrow> result \<Rightarrow> result" where
  "deliver P ev (Pending w, this, tr) =
     (case handle P this w ev of (p, this', tr') \<Rightarrow> (p, this', tr @ tr'))"
| "deliver P ev (p, this, tr) = (p, this, tr)"

definition run :: "platform \<Rightarrow> event list \<Rightarrow> result \<Rightarrow> result" where
  "run P evs r = foldl (\<lambda>r ev. deliver P ev r) r evs"

subsection \<open>Watching the surface in a trace of effects\<close>

definition opens_surface :: "effect \<Rightarrow> bool" where
  "opens_surface e =
     (case e of WindowOpen url name features opened \<Rightarrow> True
              | DisplayDialog url \<Rightarrow> True
              | _ \<Rightarrow> False)"

datatype surface = NoSurface | Live | Closed

text \<open>
  The observer keeps the state of the surface and whether some \<open>resolve\<close>/\<open>reject\<close>
  ran while a surface was live. A dialog counts as live from the moment it is asked for.
\<close>

fun observe :: "surface \<times> bool \<Rightarrow> effect \<Rightarrow> surface \<times> bool" where
  "observe (s, bad) (WindowOpen url name features opened) = ((if opened then Live else s), bad)"
| "observe (s, bad) (DisplayDialog url) = (Live, bad)"
| "observe (s, bad) PopupClose = ((if s = Live then Closed else s), bad)"
| "observe (s, bad) DialogClose = ((if s = Live then Closed else s), bad)"
| "observe (s, bad) Settle = (s, bad \<or> s = Live)"
| "observe (s, bad) e = (s, bad)"

definition watch :: "effect list \<Rightarrow> surface \<times> bool" where
  "watch tr = foldl observe (NoSurface, False) tr"

definition is_settled :: "promise \<Rightarrow> bool" where
  "is_settled p = (case p of Pending w \<Rightarrow> False | _ \<Rightarrow> True)"

text \<open>What holds of a call of \<open>authenticate\<close> after any callbacks, by the state it waits in.\<close>

definition lifecycle_inv :: "result \<Rightarrow> bool" where
  "lifecycle_inv r =
     (case r of (p, this, tr) \<Rightarrow>
        length (filter opens_surface tr) \<le> 1 \<and> snd (watch tr) = False \<and>
        (case p of
           Pending (PopupPolling endpoint popupWindow) \<Rightarrow>
             Settle \<notin> set tr \<and> length (filter opens_surface tr) = 1 \<and>
             fst (watch tr) = (if popupWindow then Live else NoSurface)
         | Pending (DialogOpening endpoint) \<Rightarrow> Settle \<notin> set tr \<and> fst (watch tr) = Live
         | Pending (DialogOpen endpoint) \<Rightarrow> Settle \<notin> set tr \<and> fst (watch tr) = Live
         | Pending (XhrInFlight endpoint) \<Rightarrow> Settle \<notin> set tr \<and> fst (watch tr) = Closed
         | Pending Never \<Rightarrow> Settle \<notin> set tr
         | _ \<Rightarrow> Settle \<in> set tr \<and> fst (watch tr) \<noteq> Live))"

subsection \<open>The expiry test and the normalisation of lines 62-64, on their own\<close>

definition has_expired :: "platform \<Rightarrow> int \<Rightarrow> jsval \<Rightarrow> bool" where
  "has_expired P now token =
     (\<not> is_nullish (get_prop ''expires_at'' token) \<and>
      (case as_Date P (get_prop ''expires_at'' token) of None \<Rightarrow> False | Some t \<Rightarrow> t - now < 0))"

definition normalised :: "platform \<Rightarrow> jsval \<Rightarrow> jsval" where
  "normalised P token =
     (if is_nullish (get_prop ''expires_at'' token) then token
      else set_prop ''expires_at'' (JDate (as_Date P (get_prop ''expires_at'' token))) token)"

text \<open>The authenticator after line 63 has run on the token cached for \<open>prov\<close>.\<close>

definition renewed :: "platform \<Rightarrow> authenticator \<Rightarrow> string \<Rightarrow> jsval \<Rightarrow> authenticator" where
  "renewed P this prov token = this\<lparr>tokens := (tokens this)(prov \<mapsto> normalised P token)\<rparr>"

definition EndpointNotFound :: "string \<Rightarrow> jsval" where
  "EndpointNotFound prov =
     IError (JStr (''No such registered endpoint: '' @ prov @ '' could be found.''))"

section \<open>A concrete configuration\<close>

definition example_endpoint :: endpoint where
  "example_endpoint =
     \<lparr>provider = ''contoso'', clientId = ''client-1'',
      baseUrl = ''https://login.contoso.com'', authorizeUrl = ''/oauth2/authorize'',
      redirectUrl = ''https://app.contoso.com/redirect'',
      tokenUrl = Some ''https://app.contoso.com/token'', scope = ''profile''\<rparr>"

definition example_getLoginUrl :: "endpoint \<Rightarrow> string" where
  "example_getLoginUrl e = baseUrl e @ authorizeUrl e @ ''?client_id='' @ clientId e"

definition example_token :: jsval where
  "example_token = JObj [(''access_token'', JStr ''tok123''), (''expires_in'', JNum 3600)]"

definition example_code :: jsval where
  "example_code = JObj [(''code'', JStr ''abc'')]"

definition example_getToken :: "string \<Rightarrow> string \<Rightarrow> jsval" where
  "example_getToken url origin =
     (if str_includes url ''access_token=tok123'' then example_token
      else if str_includes url ''code=abc'' then example_code
      else if str_includes url ''error=access_denied'' then IError (JStr ''access_denied'')
      else JNull)"

definition example_newDate :: "jsval \<Rightarrow> int option" where
  "example_newDate v = (case v of JNum n \<Rightarrow> Some n | _ \<Rightarrow> None)"

definition example_JSON_parse :: "string \<Rightarrow> exn + jsval" where
  "example_JSON_parse s =
     (if s = ''tok123.json'' then Inr example_token
      else if s = ''{}'' then Inr (JObj [])
      else if s = ''null'' then Inr JNull
      else Inl SyntaxError)"

definition example_JSON_stringify :: "jsval \<Rightarrow> jsval" where
  "example_JSON_stringify v =
     (if v = JUndefined then JUndefined
      else if v = JNull then JStr ''null''
      else if v = JObj [] then JStr ''{}''
      else JStr ''tok123.json'')"

definition example_window_open :: "string \<Rightarrow> string \<Rightarrow> string \<Rightarrow> bool" where
  "example_window_open url name features = True"

definition example_platform :: platform where
  "example_platform =
     \<lparr>isAddin = False, getLoginUrl = example_getLoginUrl, getToken = example_getToken,
      newDate = example_newDate, JSON_parse = example_JSON_parse,
      JSON_stringify = example_JSON_stringify, window_open = example_window_open\<rparr>"

definition example_authenticator :: authenticator where
  "example_authenticator =
     \<lparr>endpoints = [''contoso'' \<mapsto> example_endpoint], tokens = Map.empty, mode = Dialog\<rparr>"

definition example_cached :: authenticator where
  "example_cached =
     \<lparr>endpoints = Map.empty, tokens = [''contoso'' \<mapsto> example_token], mode = Dialog\<rparr>"

definition example_redirecting :: authenticator where
  "example_redirecting =
     \<lparr>endpoints = [''contoso'' \<mapsto> example_endpoint], tokens = Map.empty, mode = Redirect\<rparr>"

definition example_expiring :: jsval where
  "example_expiring = JObj [(''access_token'', JStr ''tok123''), (''expires_at'', JNum 1000)]"

section \<open>Evaluating the concrete configuration\<close>

lemmas example_defs = example_platform_def example_authenticator_def example_endpoint_def
  example_getLoginUrl_def example_getToken_def example_token_def example_code_def
  example_newDate_def example_JSON_parse_def example_JSON_stringify_def example_window_open_def

section \<open>The URL test\<close>

lemma matches_at_iff:
  "matches_at alt s \<longleftrightarrow> (\<exists>mid post. s = mid @ post \<and> map canonicalize mid = map canonicalize alt)"
proof
  assume m: "matches_at alt s"
  then have "s = take (length alt) s @ drop (length alt) s" by simp
  with m show "\<exists>mid post. s = mid @ post \<and> map canonicalize mid = map canonicalize alt"
    unfolding matches_at_def by blast
next
  assume "\<exists>mid post. s = mid @ post \<and> map canonicalize mid = map canonicalize alt"
  then obtain mid post where s: "s = mid @ post" and e: "map canonicalize mid = map canonicalize alt"
    by blast
  from e have "length mid = length alt" by (metis length_map)
  with s e show "matches_at alt s" by (simp add: matches_at_def)
qed

lemma contains_ci_Nil: "contains_ci w [] \<longleftrightarrow> matches_at w []"
  by (auto simp: contains_ci_def matches_at_iff)

lemma contains_ci_Cons: "contains_ci w (c # cs) \<longleftrightarrow> matches_at w (c # cs) \<or> contains_ci w cs"
proof
  assume "contains_ci w (c # cs)"
  then obtain pre mid post where s: "c # cs = pre @ mid @ post"
    and e: "map canonicalize mid = map canonicalize w"
    unfolding contains_ci_def by blast
  show "matches_at w (c # cs) \<or> contains_ci w cs"
  proof (cases pre)
    case Nil
    with s e show ?thesis by (auto simp: matches_at_iff)
  next
    case (Cons a pre')
    with s have "cs = pre' @ mid @ post" by simp
    with e show ?thesis unfolding contains_ci_def by blast
  qed
next
  assume "matches_at w (c # cs) \<or> contains_ci w cs"
  then show "contains_ci w (c # cs)"
  proof
    assume "matches_at w (c # cs)"
    then obtain mid post where "c # cs = [] @ mid @ post" "map canonicalize mid = map canonicalize w"
      by (auto simp: matches_at_iff)
    then show ?thesis unfolding contains_ci_def by blast
  next
    assume "contains_ci w cs"
    then obtain pre mid post where "cs = pre @ mid @ post" "map canonicalize mid = map canonicalize w"
      unfolding contains_ci_def by blast
    then have "c # cs = (c # pre) @ mid @ post" by simp
    with \<open>map canonicalize mid = map canonicalize w\<close> show ?thesis unfolding contains_ci_def by blast
  qed
qed

lemma regex_test_iff: "regex_test alts s \<longleftrightarrow> (\<exists>alt \<in> set alts. contains_ci alt s)"
  by (induction s) (auto simp: list_ex_iff contains_ci_Nil contains_ci_Cons)

text \<open>
  C10. \<open>isTokenUrl url\<close> is true exactly when \<open>url\<close> contains \<open>access_token\<close>, \<open>code\<close> or
  \<open>error\<close> somewhere, letter case ignored. Hence, in an add-in, \<open>isAuthDialog\<close> takes any
  current URL that merely contains \<open>code\<close> or \<open>error\<close> (in its path, say) as carrying a
  result: it sends the parsed payload to the parent and returns true.
\<close>

theorem isTokenUrl_iff_contains:
  "(isTokenUrl url \<longleftrightarrow>
      contains_ci ''access_token'' url \<or> contains_ci ''code'' url \<or> contains_ci ''error'' url)
   \<and> (isAddin P \<and> (contains_ci ''code'' href \<or> contains_ci ''error'' href) \<longrightarrow>
        isAuthDialog P href origin
          = (True, [MessageParent (JSON_stringify P (getToken P href origin))]))"
  by (simp add: isTokenUrl_def regex_test_iff isAuthDialog_def)

theorem isTokenUrl_iff_contains_witness:
  "isAddin (example_platform\<lparr>isAddin := True\<rparr>)
   \<and> contains_ci ''code'' ''https://contoso.com/barcode/''
   \<and> isTokenUrl ''https://contoso.com/barcode/''
   \<and> isAuthDialog (example_platform\<lparr>isAddin := True\<rparr>) ''https://contoso.com/barcode/''
        ''https://contoso.com'' = (True, [MessageParent (JStr ''null'')])"
proof -
  have c: "contains_ci ''code'' ''https://contoso.com/barcode/''"
    unfolding contains_ci_def
    by (rule exI[of _ "''https://contoso.com/bar''"], rule exI[of _ "''code''"],
        rule exI[of _ "''/''"]) (simp add: canonicalize_def)
  show ?thesis
    using c isTokenUrl_iff_contains[of "''https://contoso.com/barcode/''"
        "example_platform\<lparr>isAddin := True\<rparr>" "''https://contoso.com/barcode/''"
        "''https://contoso.com''"]
    by (simp add: example_defs is_nullish_def)
qed

section \<open>The life of the surface\<close>

lemma watch_append: "watch (tr @ tr') = foldl observe (watch tr) tr'"
  by (simp add: watch_def)

lemma exchange_cases:
  "exchangeCodeForToken P this prov data [] = (p, this', tr) \<Longrightarrow>
     (p = Rejected (JErr TypeError) \<and> tr = [Settle]) \<or>
     (p = Resolved data \<and> tr = [ConsoleWarn no_tokenUrl_warning, Settle]) \<or>
     (\<exists>endpoint url. p = Pending (XhrInFlight endpoint) \<and>
        tr = [XhrOpen ''POST'' url,
              XhrSetRequestHeader ''Accept'' (JStr ''application/json''),
              XhrSetRequestHeader ''Content-Type'' (JStr ''application/json''),
              XhrSend (JSON_stringify P data)])"
  by (auto simp: exchangeCodeForToken_def is_settled_def split: option.splits)

lemma inv_authenticate: "lifecycle_inv (authenticate P now this prov force)"
  by (auto simp: authenticate_def lifecycle_inv_def watch_def opens_surface_def
      expiry_check_def openInDialog_def openInWindowPopup_def Let_def
      split: option.splits prod.splits if_splits)

lemma inv_xhr_onload:
  assumes "lifecycle_inv (Pending (XhrInFlight endpoint), this, tr)"
    and "xhr_onload P this endpoint status responseText = (p, this', tr')"
  shows "lifecycle_inv (p, this', tr @ tr')"
  using assms
  by (cases "watch tr") (auto simp: xhr_onload_def lifecycle_inv_def watch_append opens_surface_def
      split: if_splits sum.splits bool.splits prod.splits)

lemma inv_dialog_callback:
  assumes "lifecycle_inv (Pending (DialogOpening endpoint), this, tr)"
    and "dialog_callback this endpoint dialog = (p, this', tr')"
  shows "lifecycle_inv (p, this', tr @ tr')"
  using assms
  by (cases "watch tr") (auto simp: dialog_callback_def lifecycle_inv_def watch_append opens_surface_def
      split: if_splits prod.splits)

lemma inv_dialog_message:
  assumes "lifecycle_inv (Pending (DialogOpen endpoint), this, tr)"
    and "dialog_message P this endpoint message = (p, this', tr')"
  shows "lifecycle_inv (p, this', tr @ tr')"
  using assms
  by (cases "watch tr")
    (auto simp: dialog_message_def lifecycle_inv_def watch_append opens_surface_def
      is_settled_def
      split: if_splits sum.splits bool.splits prod.splits option.splits
      dest!: exchange_cases)

lemma inv_poll_tick:
  assumes "lifecycle_inv (Pending (PopupPolling endpoint popupWindow), this, tr)"
    and "poll_tick P this endpoint popupWindow pr = (p, this', tr')"
  shows "lifecycle_inv (p, this', tr @ tr')"
  using assms
  by (cases "watch tr")
    (auto simp: poll_tick_def read_URL_def lifecycle_inv_def watch_append opens_surface_def
      is_settled_def Let_def
      split: if_splits sum.splits bool.splits prod.splits option.splits probe.splits
      dest!: exchange_cases)


lemma inv_handle:
  assumes "lifecycle_inv (Pending w, this, tr)" and "handle P this w ev = (p, this', tr')"
  shows "lifecycle_inv (p, this', tr @ tr')"
proof (cases "(P, this, w, ev)" rule: handle.cases)
  case (1 P' this0 endpoint popupWindow closed pr)
  with assms show ?thesis by (auto intro: inv_poll_tick)
next
  case (2 P' this0 endpoint dialog)
  with assms show ?thesis by (auto intro: inv_dialog_callback)
next
  case (3 P' this0 endpoint message)
  with assms show ?thesis by (auto intro: inv_dialog_message)
next
  case (4 P' this0 endpoint status responseText)
  with assms show ?thesis by (auto intro: inv_xhr_onload)
qed (use assms in auto)

lemma inv_deliver: "lifecycle_inv r \<Longrightarrow> lifecycle_inv (deliver P ev r)"
proof (cases "(P, ev, r)" rule: deliver.cases)
  case (1 P' ev' w this tr)
  assume "lifecycle_inv r"
  with 1 show ?thesis
    by (cases "handle P this w ev") (auto intro: inv_handle)
qed auto

lemma inv_run: "lifecycle_inv r \<Longrightarrow> lifecycle_inv (run P evs r)"
  unfolding run_def by (induction evs arbitrary: r) (simp_all add: inv_deliver)

text \<open>
  C6. Whatever callbacks follow a call of \<open>authenticate\<close>, the call asks for at most one
  surface (popup or dialog), no \<open>resolve\<close>/\<open>reject\<close> runs while a surface is live, and
  when the promise is settled the surface is not live: it was closed before, or was never
  there (the cached token, the missing endpoint, Redirect mode, the blocked popup).
\<close>

theorem surface_lifecycle:
  "case run P evs (authenticate P now this prov force) of
     (p, this', tr) \<Rightarrow>
       length (filter opens_surface tr) \<le> 1 \<and> \<not> snd (watch tr) \<and>
       is_settled p = (Settle \<in> set tr) \<and>
       (is_settled p \<longrightarrow> fst (watch tr) \<noteq> Live)"
proof -
  have "lifecycle_inv (run P evs (authenticate P now this prov force))"
    by (rule inv_run) (rule inv_authenticate)
  then show ?thesis
    by (auto simp: lifecycle_inv_def is_settled_def split: prod.splits promise.splits wait.splits)
qed

theorem surface_lifecycle_witness:
  "is_settled (fst (run example_platform
      [Tick False (Inaccessible TypeError),
       Tick False (DocumentURL ''https://app.contoso.com/redirect#access_token=tok123'')]
      (authenticate example_platform 0 example_authenticator ''contoso'' False)))
   \<and> fst (watch (snd (snd (run example_platform
      [Tick False (Inaccessible TypeError),
       Tick False (DocumentURL ''https://app.contoso.com/redirect#access_token=tok123'')]
      (authenticate example_platform 0 example_authenticator ''contoso'' False))))) \<noteq> Live"
proof -
  have r: "fst (run example_platform
      [Tick False (Inaccessible TypeError),
       Tick False (DocumentURL ''https://app.contoso.com/redirect#access_token=tok123'')]
      (authenticate example_platform 0 example_authenticator ''contoso'' False))
    = Resolved example_token"
    by (simp add: run_def authenticate_def openInWindowPopup_def poll_tick_def read_URL_def
        is_nullish_def has_field_def Let_def example_defs)
  show ?thesis
    using r surface_lifecycle[of example_platform
      "[Tick False (Inaccessible TypeError),
       Tick False (DocumentURL ''https://app.contoso.com/redirect#access_token=tok123'')]"
      0 example_authenticator "''contoso''" False]
    by (simp add: is_settled_def split: prod.splits)
qed

section \<open>\<open>authenticate\<close> and the code exchange\<close>

lemma renewed_same:
  "tokens this prov = Some token \<Longrightarrow> is_nullish (get_prop ''expires_at'' token) \<Longrightarrow>
     renewed P this prov token = this"
  by (simp add: renewed_def normalised_def map_upd_triv)

lemma renewed_fields [simp]:
  "endpoints (renewed P this prov token) = endpoints this"
  "mode (renewed P this prov token) = mode this"
  "tokens (renewed P this prov token) = (tokens this)(prov \<mapsto> normalised P token)"
  by (simp_all add: renewed_def)

lemma expiry_check_eq:
  "tokens this prov = Some token \<Longrightarrow>
   expiry_check P now this prov token force =
     (normalised P token, renewed P this prov token, force \<or> has_expired P now token,
      if has_expired P now token
      then [ConsoleWarn (''Token for provider: '' @ prov @ '' has expired. Re-authenticating...'')]
      else [])"
  by (auto simp: expiry_check_def normalised_def has_expired_def renewed_def map_upd_triv Let_def
      split: option.splits)

lemma get_prop_normalised:
  "name \<noteq> ''expires_at'' \<Longrightarrow> get_prop name (normalised P token) = get_prop name token"
  by (cases token) (auto simp: normalised_def get_prop_def set_prop_def update_conv')

subsection \<open>An unregistered provider\<close>

text \<open>
  The statement "an unregistered provider is always rejected with EndpointNotFound, for
  every Token Store and every \<open>force\<close>" fails: the cache is consulted before the
  registry, so a cached, unexpired token is handed out although no endpoint is registered.
\<close>

theorem authenticate_unregistered_cached_counterexample:
  "endpoints example_cached ''contoso'' = None
   \<and> authenticate example_platform 0 example_cached ''contoso'' False
       = (Resolved example_token, example_cached, [Settle])
   \<and> fst (authenticate example_platform 0 example_cached ''contoso'' False)
       \<noteq> Rejected (EndpointNotFound ''contoso'')"
  by (simp add: authenticate_def expiry_check_def is_nullish_def get_prop_def example_cached_def
      Let_def example_defs)

text \<open>
  C1, as the code has it. For a provider that is not registered, \<open>authenticate\<close> opens
  no surface. It rejects with the payload
  \<open>No such registered endpoint: ... could be found.\<close> when no token is cached, or
  \<open>force\<close> is set, or the cached token has expired; with a cached, unexpired token and
  \<open>force\<close> unset it resolves with that token.
\<close>

theorem authenticate_unregistered:
  assumes "endpoints this prov = None"
  shows "filter opens_surface (snd (snd (authenticate P now this prov force))) = []
    \<and> fst (authenticate P now this prov force) =
        (case tokens this prov of
           None \<Rightarrow> Rejected (EndpointNotFound prov)
         | Some token \<Rightarrow>
             if is_nullish token \<or> force \<or> has_expired P now token
             then Rejected (EndpointNotFound prov)
             else Resolved (normalised P token))"
  using assms
  by (auto simp: authenticate_def expiry_check_eq EndpointNotFound_def opens_surface_def
      is_nullish_def split: option.splits)

text \<open>A forced call for the unregistered provider, with a token in the cache.\<close>

theorem authenticate_unregistered_witness:
  "endpoints example_cached ''contoso'' = None
   \<and> fst (authenticate example_platform 0 example_cached ''contoso'' True)
       = Rejected (EndpointNotFound ''contoso'')
   \<and> filter opens_surface (snd (snd (authenticate example_platform 0 example_cached ''contoso'' True))) = []"
  using authenticate_unregistered[of example_cached "''contoso''" example_platform 0 True]
  by (simp add: example_cached_def)

subsection \<open>The cache check\<close>

text \<open>
  C2. With a token \<open>T\<close> cached for the provider.
  If \<open>T\<close> has not expired at the current time and \<open>force\<close> is unset, the promise
  resolves at once with \<open>T\<close> and nothing else is done: no surface, no warning. The
  object handed out is the stored record \<open>T\<close> after line 63 has made its \<open>expires_at\<close> a
  \<open>Date\<close> in place, so the store holds it in that form: every other field is untouched,
  and token and store are unchanged when \<open>expires_at\<close> is absent or a \<open>Date\<close> already.
  If \<open>T\<close> has expired, the call is the call with \<open>force\<close> set: it never resolves with
  the cached token, it logs the warning first, and it goes on to the registry; an
  unregistered provider is rejected, and in Dialog mode a registered one gets its dialog
  or popup and the promise waits for it.
\<close>

theorem authenticate_cache_check:
  assumes "tokens this prov = Some token" and "\<not> is_nullish token"
  shows "(\<not> has_expired P now token \<longrightarrow>
            authenticate P now this prov False
              = (Resolved (normalised P token), renewed P this prov token, [Settle])
            \<and> tokens (renewed P this prov token) prov = Some (normalised P token))
       \<and> (has_expired P now token \<longrightarrow>
            authenticate P now this prov force = authenticate P now this prov True
            \<and> (\<forall>v. fst (authenticate P now this prov force) \<noteq> Resolved v)
            \<and> hd (snd (snd (authenticate P now this prov force)))
                = ConsoleWarn (''Token for provider: '' @ prov
                               @ '' has expired. Re-authenticating...''))
       \<and> (has_expired P now token \<and> endpoints this prov = None \<longrightarrow>
            fst (authenticate P now this prov force) = Rejected (EndpointNotFound prov))
       \<and> (has_expired P now token \<and> endpoints this prov = Some endpoint \<and> mode this = Dialog \<longrightarrow>
            fst (authenticate P now this prov force)
              = Pending (if isAddin P then DialogOpening endpoint
                         else PopupPolling endpoint
                                (window_open P (getLoginUrl P endpoint)
                                   (toUpperCase (provider endpoint)) windowFeatures))
            \<and> length (filter opens_surface (snd (snd (authenticate P now this prov force)))) = 1)
       \<and> (\<forall>name. name \<noteq> ''expires_at'' \<longrightarrow>
            get_prop name (normalised P token) = get_prop name token)
       \<and> (is_nullish (get_prop ''expires_at'' token) \<or> (\<exists>t. get_prop ''expires_at'' token = JDate t)
            \<longrightarrow> normalised P token = token \<and> renewed P this prov token = this)"
proof -
  have fresh: "authenticate P now this prov False
        = (Resolved (normalised P token), renewed P this prov token, [Settle])"
    if "\<not> has_expired P now token"
    using assms that by (simp add: authenticate_def expiry_check_eq)
  have forced: "authenticate P now this prov force = authenticate P now this prov True"
    if "has_expired P now token"
    using assms that by (simp add: authenticate_def expiry_check_eq)
  have not_resolved: "fst (authenticate P now this prov force) \<noteq> Resolved v"
    if "has_expired P now token" for v
    using assms that
    by (auto simp: authenticate_def expiry_check_eq openInDialog_def openInWindowPopup_def
        Let_def split: option.splits)
  have warned: "hd (snd (snd (authenticate P now this prov force)))
        = ConsoleWarn (''Token for provider: '' @ prov @ '' has expired. Re-authenticating...'')"
    if "has_expired P now token"
    using assms that
    by (auto simp: authenticate_def expiry_check_eq openInDialog_def openInWindowPopup_def
        Let_def split: option.splits)
  have missing: "fst (authenticate P now this prov force) = Rejected (EndpointNotFound prov)"
    if "has_expired P now token" and "endpoints this prov = None"
    using assms that by (simp add: authenticate_def expiry_check_eq EndpointNotFound_def)
  have surface: "fst (authenticate P now this prov force)
          = Pending (if isAddin P then DialogOpening endpoint
                     else PopupPolling endpoint
                            (window_open P (getLoginUrl P endpoint)
                               (toUpperCase (provider endpoint)) windowFeatures))
        \<and> length (filter opens_surface (snd (snd (authenticate P now this prov force)))) = 1"
    if "has_expired P now token" and "endpoints this prov = Some endpoint"
      and "mode this = Dialog"
    using assms that
    by (simp add: authenticate_def expiry_check_eq openInDialog_def openInWindowPopup_def
        opens_surface_def Let_def)
  have fields: "get_prop name (normalised P token) = get_prop name token"
    if "name \<noteq> ''expires_at''" for name
    using that by (rule get_prop_normalised)
  have same: "normalised P token = token"
    if "is_nullish (get_prop ''expires_at'' token) \<or> (\<exists>t. get_prop ''expires_at'' token = JDate t)"
    using that
    by (cases token)
      (auto simp: normalised_def get_prop_def set_prop_def as_Date_def update_triv
        split: option.splits)
  have same_store: "renewed P this prov token = this"
    if "is_nullish (get_prop ''expires_at'' token) \<or> (\<exists>t. get_prop ''expires_at'' token = JDate t)"
    using assms(1) same[OF that] by (simp add: renewed_def map_upd_triv)
  show ?thesis
    using fresh forced not_resolved warned missing surface fields same same_store
    by (simp add: renewed_def)
qed

text \<open>A token expiring at time 1000, asked for at times 500 and 2000.\<close>

lemma example_expiring_props:
  "\<not> is_nullish example_expiring" "has_expired example_platform 2000 example_expiring"
  "\<not> has_expired example_platform 500 example_expiring"
  "normalised example_platform example_expiring
     = JObj [(''access_token'', JStr ''tok123''), (''expires_at'', JDate (Some 1000))]"
  by (simp_all add: example_expiring_def is_nullish_def has_expired_def normalised_def
      get_prop_def set_prop_def as_Date_def example_defs)

theorem authenticate_cache_check_witness:
  "tokens (example_authenticator\<lparr>tokens := [''contoso'' \<mapsto> example_expiring]\<rparr>) ''contoso''
     = Some example_expiring
   \<and> \<not> is_nullish example_expiring
   \<and> \<not> has_expired example_platform 500 example_expiring
   \<and> authenticate example_platform 500
        (example_authenticator\<lparr>tokens := [''contoso'' \<mapsto> example_expiring]\<rparr>) ''contoso'' False
      = (Resolved (JObj [(''access_token'', JStr ''tok123''), (''expires_at'', JDate (Some 1000))]),
         example_authenticator\<lparr>tokens := [''contoso'' \<mapsto>
            JObj [(''access_token'', JStr ''tok123''), (''expires_at'', JDate (Some 1000))]]\<rparr>,
         [Settle])
   \<and> has_expired example_platform 2000 example_expiring
   \<and> endpoints (example_authenticator\<lparr>tokens := [''contoso'' \<mapsto> example_expiring]\<rparr>) ''contoso''
      = Some example_endpoint
   \<and> mode (example_authenticator\<lparr>tokens := [''contoso'' \<mapsto> example_expiring]\<rparr>) = Dialog
   \<and> authenticate example_platform 2000
        (example_authenticator\<lparr>tokens := [''contoso'' \<mapsto> example_expiring]\<rparr>) ''contoso'' False
      = authenticate example_platform 2000
        (example_authenticator\<lparr>tokens := [''contoso'' \<mapsto> example_expiring]\<rparr>) ''contoso'' True
   \<and> fst (authenticate example_platform 2000
        (example_authenticator\<lparr>tokens := [''contoso'' \<mapsto> example_expiring]\<rparr>) ''contoso'' False)
      = Pending (PopupPolling example_endpoint True)
   \<and> endpoints (example_cached\<lparr>tokens := [''contoso'' \<mapsto> example_expiring]\<rparr>) ''contoso'' = None
   \<and> fst (authenticate example_platform 2000
        (example_cached\<lparr>tokens := [''contoso'' \<mapsto> example_expiring]\<rparr>) ''contoso'' False)
      = Rejected (EndpointNotFound ''contoso'')
   \<and> get_prop ''access_token'' (normalised example_platform example_expiring)
      = get_prop ''access_token'' example_expiring
   \<and> normalised example_platform example_token = example_token"
proof -
  have t: "tokens (example_authenticator\<lparr>tokens := [''contoso'' \<mapsto> example_expiring]\<rparr>) ''contoso''
     = Some example_expiring" by simp
  have e: "endpoints (example_authenticator\<lparr>tokens := [''contoso'' \<mapsto> example_expiring]\<rparr>) ''contoso''
      = Some example_endpoint" by (simp add: example_authenticator_def)
  have m: "mode (example_authenticator\<lparr>tokens := [''contoso'' \<mapsto> example_expiring]\<rparr>) = Dialog"
    by (simp add: example_authenticator_def)
  have a: "\<not> isAddin example_platform" by (simp add: example_platform_def)
  have w: "window_open example_platform url name features" for url name features
    by (simp add: example_platform_def example_window_open_def)
  have tc: "tokens (example_cached\<lparr>tokens := [''contoso'' \<mapsto> example_expiring]\<rparr>) ''contoso''
     = Some example_expiring" by simp
  have ec: "endpoints (example_cached\<lparr>tokens := [''contoso'' \<mapsto> example_expiring]\<rparr>) ''contoso'' = None"
    by (simp add: example_cached_def)
  have n: "is_nullish (get_prop ''expires_at'' example_token)"
    by (simp add: example_token_def get_prop_def is_nullish_def)
  have t2: "tokens (example_authenticator\<lparr>tokens := [''contoso'' \<mapsto> example_token]\<rparr>) ''contoso''
     = Some example_token" by simp
  have n2: "\<not> is_nullish example_token" by (simp add: example_token_def is_nullish_def)
  note fresh = authenticate_cache_check[OF t example_expiring_props(1),
      of example_platform 500 False example_endpoint, THEN conjunct1, THEN mp,
      OF example_expiring_props(3)]
  note stale = authenticate_cache_check[OF t example_expiring_props(1),
      of example_platform 2000 False example_endpoint, THEN conjunct2]
  note forced = stale[THEN conjunct1, THEN mp, OF example_expiring_props(2), THEN conjunct1]
  note surface = stale[THEN conjunct2, THEN conjunct2, THEN conjunct1, THEN mp,
      OF conjI[OF example_expiring_props(2) conjI[OF e m]], THEN conjunct1]
  note missing = authenticate_cache_check[OF tc example_expiring_props(1),
      of example_platform 2000 False example_endpoint, THEN conjunct2, THEN conjunct2,
      THEN conjunct1, THEN mp, OF conjI[OF example_expiring_props(2) ec]]
  note rest = authenticate_cache_check[OF t2 n2, of example_platform 0 False example_endpoint,
      THEN conjunct2, THEN conjunct2, THEN conjunct2, THEN conjunct2]
  note fields = authenticate_cache_check[OF t example_expiring_props(1),
      of example_platform 500 False example_endpoint, THEN conjunct2, THEN conjunct2,
      THEN conjunct2, THEN conjunct2, THEN conjunct1, THEN spec, of "''access_token''"]
  have c1: "authenticate example_platform 500
        (example_authenticator\<lparr>tokens := [''contoso'' \<mapsto> example_expiring]\<rparr>) ''contoso'' False
      = (Resolved (JObj [(''access_token'', JStr ''tok123''), (''expires_at'', JDate (Some 1000))]),
         example_authenticator\<lparr>tokens := [''contoso'' \<mapsto>
            JObj [(''access_token'', JStr ''tok123''), (''expires_at'', JDate (Some 1000))]]\<rparr>,
         [Settle])"
    using fresh by (simp add: renewed_def example_expiring_props(4))
  have c2: "fst (authenticate example_platform 2000
        (example_authenticator\<lparr>tokens := [''contoso'' \<mapsto> example_expiring]\<rparr>) ''contoso'' False)
      = Pending (PopupPolling example_endpoint True)"
    using surface a w by simp
  have c3: "get_prop ''access_token'' (normalised example_platform example_expiring)
      = get_prop ''access_token'' example_expiring"
    using fields by simp
  have c4: "normalised example_platform example_token = example_token"
    using rest n by simp
  show ?thesis
    using t example_expiring_props(1,2,3) c1 e m forced c2 ec missing c3 c4 by simp
qed

text \<open>
  C9. A cached token without \<open>expires_at\<close> is never taken as expired: whatever the
  current time and whatever \<open>expires_in\<close> it carries, \<open>authenticate(provider, false)\<close>
  resolves with it, unchanged.
\<close>

theorem authenticate_no_expires_at:
  assumes "tokens this prov = Some token" and "\<not> is_nullish token"
    and "is_nullish (get_prop ''expires_at'' token)"
  shows "authenticate P now this prov False = (Resolved token, this, [Settle])"
  using assms by (simp add: authenticate_def expiry_check_def)

theorem authenticate_no_expires_at_witness:
  "tokens (example_authenticator\<lparr>tokens := [''contoso'' \<mapsto> example_token]\<rparr>) ''contoso''
     = Some example_token
   \<and> \<not> is_nullish example_token
   \<and> is_nullish (get_prop ''expires_at'' example_token)
   \<and> get_prop ''expires_in'' example_token = JNum 3600
   \<and> authenticate example_platform 99999999
        (example_authenticator\<lparr>tokens := [''contoso'' \<mapsto> example_token]\<rparr>) ''contoso'' False
      = (Resolved example_token,
         example_authenticator\<lparr>tokens := [''contoso'' \<mapsto> example_token]\<rparr>, [Settle])"
proof -
  have t: "tokens (example_authenticator\<lparr>tokens := [''contoso'' \<mapsto> example_token]\<rparr>) ''contoso''
     = Some example_token" by simp
  have n: "\<not> is_nullish example_token" by (simp add: example_token_def is_nullish_def)
  have e: "is_nullish (get_prop ''expires_at'' example_token)"
    by (simp add: example_token_def get_prop_def is_nullish_def)
  have i: "get_prop ''expires_in'' example_token = JNum 3600"
    by (simp add: example_token_def get_prop_def)
  show ?thesis
    using t n e i authenticate_no_expires_at[OF t n e, of example_platform 99999999] by simp
qed

subsection \<open>Redirect mode\<close>

text \<open>
  C3. In Redirect mode, for a registered provider with nothing in the cache, the
  promise is rejected with the closure of lines 81-84 itself, not with an error payload,
  and the location is not replaced: the only effect is the rejection. The redirect and
  the payload \<open>Redirecting to endpoint: contoso\<close> would come from calling that closure,
  which \<open>authenticate\<close> never does.
\<close>

theorem authenticate_redirect_rejects_with_closure:
  "authenticate example_platform 0 example_redirecting ''contoso'' False
     = (Rejected (JFun (RedirectThunk
          ''https://login.contoso.com/oauth2/authorize?client_id=client-1'' ''contoso'')),
        example_redirecting, [Settle])
   \<and> call_thunk (RedirectThunk
          ''https://login.contoso.com/oauth2/authorize?client_id=client-1'' ''contoso'')
     = (IError (JStr ''Redirecting to endpoint: contoso''),
        [LocationReplace ''https://login.contoso.com/oauth2/authorize?client_id=client-1''])"
  by (simp add: authenticate_def is_nullish_def example_redirecting_def Let_def example_defs)

subsection \<open>The code exchange\<close>

text \<open>
  C5. For a registered endpoint without \<open>tokenUrl\<close>, \<open>exchangeCodeForToken\<close> resolves
  with \<open>data\<close> itself; it only logs a warning: no request is opened or sent and the
  Token Store is not written.
\<close>

theorem exchange_without_tokenUrl:
  assumes "endpoints this prov = Some endpoint" and "tokenUrl endpoint = None"
  shows "exchangeCodeForToken P this prov data headers
           = (Resolved data, this, [ConsoleWarn no_tokenUrl_warning, Settle])"
  using assms by (simp add: exchangeCodeForToken_def)

theorem exchange_without_tokenUrl_witness:
  "endpoints (example_authenticator\<lparr>endpoints := [''contoso'' \<mapsto> example_endpoint\<lparr>tokenUrl := None\<rparr>]\<rparr>)
      ''contoso'' = Some (example_endpoint\<lparr>tokenUrl := None\<rparr>)
   \<and> tokenUrl (example_endpoint\<lparr>tokenUrl := None\<rparr>) = None
   \<and> exchangeCodeForToken example_platform
        (example_authenticator\<lparr>endpoints := [''contoso'' \<mapsto> example_endpoint\<lparr>tokenUrl := None\<rparr>]\<rparr>)
        ''contoso'' example_code []
      = (Resolved (JObj [(''code'', JStr ''abc'')]),
         example_authenticator\<lparr>endpoints := [''contoso'' \<mapsto> example_endpoint\<lparr>tokenUrl := None\<rparr>]\<rparr>,
         [ConsoleWarn no_tokenUrl_warning, Settle])"
proof -
  have e: "endpoints (example_authenticator\<lparr>endpoints := [''contoso'' \<mapsto> example_endpoint\<lparr>tokenUrl := None\<rparr>]\<rparr>)
      ''contoso'' = Some (example_endpoint\<lparr>tokenUrl := None\<rparr>)" by simp
  have u: "tokenUrl (example_endpoint\<lparr>tokenUrl := None\<rparr>) = None" by simp
  show ?thesis
    using e u exchange_without_tokenUrl[OF e u, of example_platform example_code "[]"]
    by (simp add: example_code_def)
qed

text \<open>
  C8. For a provider that is not registered, \<open>exchangeCodeForToken\<close> rejects with the
  \<open>TypeError\<close> raised by reading \<open>tokenUrl\<close> of the missing endpoint, as thrown (not
  the payload of \<open>authenticate\<close> for a missing endpoint); the Token Store is unchanged
  and no request is made.
\<close>

theorem exchange_unregistered:
  assumes "endpoints this prov = None"
  shows "exchangeCodeForToken P this prov data headers = (Rejected (JErr TypeError), this, [Settle])
       \<and> fst (exchangeCodeForToken P this prov data headers) \<noteq> Rejected (EndpointNotFound prov)"
  using assms by (simp add: exchangeCodeForToken_def EndpointNotFound_def IError_def)

theorem exchange_unregistered_witness:
  "endpoints example_authenticator ''fabrikam'' = None
   \<and> exchangeCodeForToken example_platform example_authenticator ''fabrikam'' example_code []
      = (Rejected (JErr TypeError), example_authenticator, [Settle])"
proof -
  have e: "endpoints example_authenticator ''fabrikam'' = None"
    by (simp add: example_authenticator_def)
  show ?thesis
    using e exchange_unregistered[OF e, of example_platform example_code "[]"] by simp
qed


text \<open>
  The classification "for every response ... the promise always settles" fails twice.
  A transport fault raises the \<open>error\<close> event of the request, for which no handler is
  installed: the promise stays pending. And a status 200 with the JSON text \<open>null\<close> has
  no \<open>access_token\<close>, yet is not rejected with the raw JSON: the \<open>in\<close> test throws on
  a value that is not an object, and the rejection wraps that \<open>TypeError\<close>.
\<close>

theorem exchange_transport_fault_counterexample:
  "fst (deliver example_platform XhrError
         (exchangeCodeForToken example_platform example_authenticator ''contoso'' example_code []))
     = Pending (XhrInFlight example_endpoint)
   \<and> JSON_parse example_platform ''null'' = Inr JNull
   \<and> fst (deliver example_platform (XhrLoad 200 ''null'')
         (exchangeCodeForToken example_platform example_authenticator ''contoso'' example_code []))
     = Rejected (IError (JErr TypeError))"
  by (simp add: exchangeCodeForToken_def xhr_onload_def has_field_def example_defs)

text \<open>
  C4, as the code has it. With a token URL configured the promise is pending once the
  request is sent, and the \<open>load\<close> event always settles it:
  status 200 and a JSON object with a top-level \<open>access_token\<close>: the object is stored
  under the endpoint's provider name and the promise resolves with it;
  status 200 and a JSON object or array without \<open>access_token\<close>: rejected with the raw
  JSON;
  status 200 and a JSON value on which \<open>in\<close> throws (\<open>null\<close>, a number, a string, a
  boolean), or malformed JSON: rejected with \<open>{error: exception}\<close>;
  any other status: rejected with \<open>{error: 'Request failed. ' + body}\<close>.
  Only the first case writes the Token Store. A transport fault runs no handler: the
  promise is as it was, pending.
\<close>

theorem exchange_load_outcomes:
  assumes "endpoints this prov = Some endpoint" and "tokenUrl endpoint = Some url"
  shows "fst (exchangeCodeForToken P this prov data headers) = Pending (XhrInFlight endpoint)
    \<and> deliver P XhrError (exchangeCodeForToken P this prov data headers)
        = exchangeCodeForToken P this prov data headers
    \<and> is_settled (fst (deliver P (XhrLoad status text)
                         (exchangeCodeForToken P this prov data headers)))
    \<and> (status = 200 \<and> JSON_parse P text = Inr json \<and> has_field ''access_token'' json = Inr True
         \<longrightarrow> fst (deliver P (XhrLoad status text) (exchangeCodeForToken P this prov data headers))
               = Resolved json
           \<and> fst (snd (deliver P (XhrLoad status text)
                         (exchangeCodeForToken P this prov data headers)))
               = this\<lparr>tokens := (tokens this)(provider endpoint \<mapsto> json)\<rparr>)
    \<and> (status = 200 \<and> JSON_parse P text = Inr json \<and> has_field ''access_token'' json = Inr False
         \<longrightarrow> fst (deliver P (XhrLoad status text) (exchangeCodeForToken P this prov data headers))
               = Rejected json
           \<and> fst (snd (deliver P (XhrLoad status text)
                         (exchangeCodeForToken P this prov data headers))) = this)
    \<and> (status = 200 \<and> JSON_parse P text = Inr json \<and> has_field ''access_token'' json = Inl e
         \<longrightarrow> fst (deliver P (XhrLoad status text) (exchangeCodeForToken P this prov data headers))
               = Rejected (IError (JErr e))
           \<and> fst (snd (deliver P (XhrLoad status text)
                         (exchangeCodeForToken P this prov data headers))) = this)
    \<and> (status = 200 \<and> JSON_parse P text = Inl e
         \<longrightarrow> fst (deliver P (XhrLoad status text) (exchangeCodeForToken P this prov data headers))
               = Rejected (IError (JErr e))
           \<and> fst (snd (deliver P (XhrLoad status text)
                         (exchangeCodeForToken P this prov data headers))) = this)
    \<and> (status \<noteq> 200
         \<longrightarrow> fst (deliver P (XhrLoad status text) (exchangeCodeForToken P this prov data headers))
               = Rejected (IError (JStr (''Request failed. '' @ text)))
           \<and> fst (snd (deliver P (XhrLoad status text)
                         (exchangeCodeForToken P this prov data headers))) = this)"
proof -
  have x: "exchangeCodeForToken P this prov data headers
      = (Pending (XhrInFlight endpoint), this, snd (snd (exchangeCodeForToken P this prov data headers)))"
    using assms by (simp add: exchangeCodeForToken_def)
  have d: "deliver P (XhrLoad status text) (exchangeCodeForToken P this prov data headers)
      = (case xhr_onload P this endpoint status text of
           (p, this', tr') \<Rightarrow> (p, this', snd (snd (exchangeCodeForToken P this prov data headers)) @ tr'))"
    by (subst x) simp
  have f: "fst (exchangeCodeForToken P this prov data headers) = Pending (XhrInFlight endpoint)"
    by (subst x) simp
  have g: "deliver P XhrError (exchangeCodeForToken P this prov data headers)
      = exchangeCodeForToken P this prov data headers"
  proof -
    obtain tr where e: "exchangeCodeForToken P this prov data headers
        = (Pending (XhrInFlight endpoint), this, tr)"
      using x by blast
    show ?thesis unfolding e by simp
  qed
  show ?thesis
    unfolding d f g
    by (auto simp: xhr_onload_def is_settled_def split: sum.splits bool.splits)
qed

text \<open>Five responses to the exchange for the registered provider.\<close>

lemma example_exchange:
  "endpoints example_authenticator ''contoso'' = Some example_endpoint"
  "tokenUrl example_endpoint = Some ''https://app.contoso.com/token''"
  by (simp_all add: example_authenticator_def example_endpoint_def)

lemma example_responses:
  "JSON_parse example_platform ''tok123.json'' = Inr example_token"
  "has_field ''access_token'' example_token = Inr True"
  "JSON_parse example_platform ''{}'' = Inr (JObj [])"
  "has_field ''access_token'' (JObj []) = Inr False"
  "JSON_parse example_platform ''null'' = Inr JNull"
  "has_field ''access_token'' JNull = Inl TypeError"
  "JSON_parse example_platform ''<html>'' = Inl SyntaxError"
  by (simp_all add: has_field_def example_defs)

theorem exchange_load_outcomes_witness:
  "endpoints example_authenticator ''contoso'' = Some example_endpoint
   \<and> tokenUrl example_endpoint = Some ''https://app.contoso.com/token''
   \<and> fst (deliver example_platform (XhrLoad 200 ''tok123.json'')
        (exchangeCodeForToken example_platform example_authenticator ''contoso'' example_code []))
      = Resolved example_token
   \<and> tokens (fst (snd (deliver example_platform (XhrLoad 200 ''tok123.json'')
        (exchangeCodeForToken example_platform example_authenticator ''contoso'' example_code []))))
        ''contoso'' = Some example_token
   \<and> fst (deliver example_platform (XhrLoad 200 ''{}'')
        (exchangeCodeForToken example_platform example_authenticator ''contoso'' example_code []))
      = Rejected (JObj [])
   \<and> fst (deliver example_platform (XhrLoad 200 ''null'')
        (exchangeCodeForToken example_platform example_authenticator ''contoso'' example_code []))
      = Rejected (IError (JErr TypeError))
   \<and> fst (deliver example_platform (XhrLoad 200 ''<html>'')
        (exchangeCodeForToken example_platform example_authenticator ''contoso'' example_code []))
      = Rejected (IError (JErr SyntaxError))
   \<and> fst (deliver example_platform (XhrLoad 401 ''invalid_grant'')
        (exchangeCodeForToken example_platform example_authenticator ''contoso'' example_code []))
      = Rejected (IError (JStr ''Request failed. invalid_grant''))"
proof -
  note o = exchange_load_outcomes[OF example_exchange, of example_platform example_code "[]"]
  have p: "provider example_endpoint = ''contoso''" by (simp add: example_endpoint_def)
  show ?thesis
    using example_exchange example_responses p
      o[of 200 "''tok123.json''" example_token]
      o[of 200 "''{}''" "JObj []"]
      o[of 200 "''null''" JNull TypeError]
      o[of 200 "''<html>''" _ SyntaxError]
      o[of 401 "''invalid_grant''"]
    by simp
qed

subsection \<open>The polling loop\<close>

lemma toUpperCase_contoso: "toUpperCase ''contoso'' = ''CONTOSO''"
  by code_simp

text \<open>
  The statement "when reading the URL throws and the popup has been closed from outside,
  polling stops and the promise is rejected" fails: the handler tests the handle
  (\<open>!popupWindow\<close>), which stays a window after the user closes the popup. After a
  tick with the popup closed and the read throwing, the timer is still running and the
  promise pending.
\<close>

theorem poll_tick_closed_popup_counterexample:
  "run example_platform [Tick True (Inaccessible TypeError)]
     (authenticate example_platform 0 example_authenticator ''contoso'' False)
   = (Pending (PopupPolling example_endpoint True), example_authenticator,
      [WindowOpen ''https://login.contoso.com/oauth2/authorize?client_id=client-1'' ''CONTOSO''
         windowFeatures True,
       SetInterval 400])"
  by (simp add: run_def authenticate_def openInWindowPopup_def poll_tick_def read_URL_def
      is_nullish_def Let_def toUpperCase_contoso example_defs)

text \<open>
  C7, as the code has it. At a tick where reading the popup's URL throws: if the handle
  is \<open>null\<close> (\<open>window.open\<close> returned no window) the timer is cleared and the promise
  rejected with \<open>{error: exception}\<close>; if the handle is a window the exception is
  dropped and polling goes on, whether the popup has been closed or not.
\<close>

theorem poll_tick_inaccessible:
  assumes "read_URL popupWindow pr = Inaccessible e"
  shows "handle P this (PopupPolling endpoint popupWindow) (Tick closed pr)
         = (if popupWindow then (Pending (PopupPolling endpoint popupWindow), this, [])
            else (Rejected (IError (JErr e)), this, [ClearInterval, Settle]))"
  using assms by (simp add: poll_tick_def)

text \<open>A blocked popup, and a popup closed by the user.\<close>

theorem poll_tick_inaccessible_witness:
  "read_URL False (DocumentURL ''about:blank'') = Inaccessible TypeError
   \<and> handle example_platform example_authenticator (PopupPolling example_endpoint False)
        (Tick False (DocumentURL ''about:blank''))
      = (Rejected (IError (JErr TypeError)), example_authenticator, [ClearInterval, Settle])
   \<and> read_URL True (Inaccessible TypeError) = Inaccessible TypeError
   \<and> handle example_platform example_authenticator (PopupPolling example_endpoint True)
        (Tick True (Inaccessible TypeError))
      = (Pending (PopupPolling example_endpoint True), example_authenticator, [])"
proof -
  have a: "read_URL False (DocumentURL ''about:blank'') = Inaccessible TypeError"
    by (simp add: read_URL_def)
  have b: "read_URL True (Inaccessible TypeError) = Inaccessible TypeError"
    by (simp add: read_URL_def)
  show ?thesis
    using a b
      poll_tick_inaccessible[OF a, of example_platform example_authenticator example_endpoint False]
      poll_tick_inaccessible[OF b, of example_platform example_authenticator example_endpoint True]
    by simp
qed

end
